theory Spec2Isabelle
  imports Complex_Main "HOL-Library.Char_ord" "HOL-Library.Sublist"
begin

section \<open>Wallet connection and transfer submission of the volume boost page\<close>

text \<open>
  The development embeds the two classes of the page that talk to the injected wallet
  providers: \<open>WalletManager\<close> (connection handling) and \<open>TransactionService\<close>
  (transfer submission).  The providers, the browser and the two client libraries are outside
  the repository; what they answer is a parameter of the model (the fields of the records
  \<open>ethereum\<close>, \<open>solana\<close> and \<open>window\<close> below), and what the code does with the answers
  is translated function by function.
\<close>

subsection \<open>Errors\<close>

text \<open>
  The code throws plain \<open>Error\<close> objects, told apart by their message only.
  \<open>Error msg\<close> is \<open>new Error(msg)\<close> thrown by the page's own code;
  \<open>ProviderError code msg\<close> is an exception raised inside a provider or library call
  and propagated unchanged (\<open>code\<close> is its \<open>code\<close> property, \<open>msg\<close> its message);
  \<open>TypeError msg\<close> is what the runtime throws when a property of \<open>undefined\<close> is read;
  \<open>LibraryError msg\<close> is an exception of a client library (ethers, web3.js).
\<close>

datatype error = Error string | ProviderError int string | TypeError string | LibraryError string

fun message :: "error \<Rightarrow> string" where
  "message (Error msg) = msg"
| "message (ProviderError code msg) = msg"
| "message (TypeError msg) = msg"
| "message (LibraryError msg) = msg"

subsection \<open>Strings: case-insensitive tests and \<open>toLowerCase\<close>\<close>

definition lower_char :: "char \<Rightarrow> char" where
  "lower_char c =
     (if CHR ''A'' \<le> c \<and> c \<le> CHR ''Z'' then char_of (of_char c + (32::nat)) else c)"

definition toLowerCase :: "string \<Rightarrow> string" where
  "toLowerCase s = map lower_char s"

text \<open>\<open>contains p s\<close>: the string \<open>p\<close> occurs in \<open>s\<close> (\<open>String.prototype.includes\<close>,
  and a regular expression that is a literal).\<close>

fun contains :: "string \<Rightarrow> string \<Rightarrow> bool" where
  "contains p [] = (p = [])"
| "contains p (c # cs) = (prefix p (c # cs) \<or> contains p cs)"

text \<open>\<open>/p/i.test(s)\<close> for a literal \<open>p\<close>.\<close>

definition test_ci :: "string \<Rightarrow> string \<Rightarrow> bool" where
  "test_ci p s = contains (toLowerCase p) (toLowerCase s)"

subsection \<open>The browser environment\<close>

text \<open>
  \<open>window.ethereum\<close>: the flags the code reads, and the answers of the calls it makes.
  \<open>requestAccounts\<close> answers \<open>request({method: 'eth_requestAccounts'})\<close>;
  \<open>getNetwork\<close> is the chain id \<open>provider.getNetwork()\<close> reports;
  \<open>switchChain\<close> answers \<open>wallet_switchEthereumChain\<close> and \<open>addChain\<close> answers
  \<open>wallet_addEthereumChain\<close>; \<open>getNetworkSwitched\<close> and \<open>getNetworkAdded\<close> are the
  chain ids reported after the one and the other.
\<close>

record ethereum =
  isMetaMask :: bool
  isTrustWallet :: bool
  selectedAddress :: "string option"
  requestAccounts :: "error + string list"
  getNetwork :: "error + int"
  switchChain :: "error + unit"
  getNetworkSwitched :: "error + int"
  addChain :: "error + unit"
  getNetworkAdded :: "error + int"

text \<open>
  \<open>window.solana\<close>: \<open>connect\<close> answers \<open>connect()\<close>, which asks the user;
  \<open>connectTrusted\<close> answers \<open>connect({onlyIfTrusted: true})\<close>, which does not.
  Both give \<open>response.publicKey.toString()\<close>.
\<close>

record solana =
  isPhantom :: bool
  isConnected :: bool
  connect_answer :: "error + string"
  connectTrusted :: "error + string"

record window =
  ethereum :: "ethereum option"
  solana :: "solana option"
  userAgent :: string
  onLine :: bool

subsection \<open>Configuration (\<open>config.js\<close>)\<close>

datatype wallet = MetaMask | Phantom | Trust | Other string

fun walletName :: "wallet \<Rightarrow> string" where
  "walletName MetaMask = ''MetaMask''"
| "walletName Phantom = ''Phantom''"
| "walletName Trust = ''Trust''"
| "walletName (Other n) = n"

definition SOLANA_RPC_URL :: string where
  "SOLANA_RPC_URL = ''https://proportionate-skilled-shard.solana-mainnet.quiknode.pro/e13cbae8b642209c482805a4e443fd1f27a4f42a''"

fun DEEP_LINKS :: "wallet \<Rightarrow> string option" where
  "DEEP_LINKS MetaMask = Some ''https://metamask.app.link/dapp/nexium-bot.onrender.com/add-volume.html''"
| "DEEP_LINKS Phantom = Some ''https://phantom.app/ul/browse/https%3A%2F%2Fnexium-bot.onrender.com%2Fadd-volume.html?ref=https%3A%2F%2Fnexium-bot.onrender.com''"
| "DEEP_LINKS Trust = Some ''https://link.trustwallet.com/open_url?coin_id=20000714&url=https://nexium-bot.onrender.com/add-volume.html''"
| "DEEP_LINKS (Other n) = None"

subsection \<open>\<open>utils.js\<close>\<close>

definition isMobileDevice :: "window \<Rightarrow> bool" where
  "isMobileDevice w =
     (test_ci ''iPhone'' (userAgent w) \<or> test_ci ''iPad'' (userAgent w)
      \<or> test_ci ''iPod'' (userAgent w) \<or> test_ci ''Android'' (userAgent w))"

subsection \<open>\<open>WalletManager\<close>: state\<close>

text \<open>The fields of the class; \<open>solConnection\<close> holds the RPC URL the
  \<open>Connection\<close> object was made with.\<close>

record wallet_manager =
  publicKey :: "string option"
  connectedWalletType :: "wallet option"
  connecting :: bool
  solConnection :: "string option"
  listenersSetup :: bool

definition constructor :: wallet_manager where
  "constructor =
     \<lparr>publicKey = None, connectedWalletType = None, connecting = False,
      solConnection = None, listenersSetup = False\<rparr>"


text \<open>The trust test that \<open>hasWalletExtension\<close>, the polling loop and
  \<open>checkExistingConnection\<close> all write out:
  \<open>window.ethereum.isTrustWallet || /Trust/i.test(navigator.userAgent)\<close>.\<close>

definition trustFlag :: "window \<Rightarrow> ethereum \<Rightarrow> bool" where
  "trustFlag w e = (isTrustWallet e \<or> test_ci ''Trust'' (userAgent w))"

fun hasWalletExtension :: "window \<Rightarrow> wallet \<Rightarrow> bool" where
  "hasWalletExtension w MetaMask = (case ethereum w of None \<Rightarrow> False | Some e \<Rightarrow> isMetaMask e)"
| "hasWalletExtension w Phantom = (case solana w of None \<Rightarrow> False | Some p \<Rightarrow> isPhantom p)"
| "hasWalletExtension w Trust = (case ethereum w of None \<Rightarrow> False | Some e \<Rightarrow> trustFlag w e)"
| "hasWalletExtension w (Other n) = False"

subsection \<open>\<open>WalletManager\<close>: the three handshakes\<close>

text \<open>A handshake returns \<open>{publicKey, network}\<close>, here a pair.\<close>

type_synonym connection = "string \<times> string"

definition connectMetaMask ::
  "wallet_manager \<Rightarrow> ethereum \<Rightarrow> (error + connection) \<times> wallet_manager" where
  "connectMetaMask s e =
     (case requestAccounts e of
        Inl err \<Rightarrow> (Inl err, s)
      | Inr accounts \<Rightarrow>
          (case accounts of
             [] \<Rightarrow> (Inl (Error ''MetaMask failed to provide accounts. Please unlock it.''), s)
           | a # _ \<Rightarrow>
               (case getNetwork e of
                  Inl err \<Rightarrow> (Inl err, s)
                | Inr chainId \<Rightarrow>
                    if chainId \<noteq> 1
                    then (Inl (Error ''Please switch MetaMask to Ethereum Mainnet.''), s)
                    else (Inr (a, ''Ethereum''),
                          s\<lparr>publicKey := Some a, connectedWalletType := Some MetaMask\<rparr>))))"

definition connectPhantom ::
  "wallet_manager \<Rightarrow> solana \<Rightarrow> (error + connection) \<times> wallet_manager" where
  "connectPhantom s p =
     (case connect_answer p of
        Inl err \<Rightarrow> (Inl err, s)
      | Inr pk \<Rightarrow>
          (Inr (pk, ''Solana''),
           s\<lparr>publicKey := Some pk, connectedWalletType := Some Phantom,
             solConnection := Some SOLANA_RPC_URL\<rparr>))"

text \<open>
  The \<open>try\<close> block of \<open>connectTrustWallet\<close>: the switch request and the second
  \<open>getNetwork\<close> are both inside it, so an exception of either reaches the \<open>catch\<close>;
  code 4902 leads to the add-chain request, whose exceptions (and those of the third
  \<open>getNetwork\<close>) are not caught.
\<close>

definition switchToBNB :: "ethereum \<Rightarrow> error + int" where
  "switchToBNB e =
     (case (case switchChain e of Inl err \<Rightarrow> Inl err | Inr _ \<Rightarrow> getNetworkSwitched e) of
        Inr chainId \<Rightarrow> Inr chainId
      | Inl switchError \<Rightarrow>
          (case switchError of
             ProviderError code msg \<Rightarrow>
               if code = 4902
               then (case addChain e of Inl err \<Rightarrow> Inl err | Inr _ \<Rightarrow> getNetworkAdded e)
               else Inl (Error (''Failed to switch to BNB Smart Chain: '' @ msg))
           | Error msg \<Rightarrow> Inl (Error (''Failed to switch to BNB Smart Chain: '' @ msg))
           | TypeError msg \<Rightarrow> Inl (Error (''Failed to switch to BNB Smart Chain: '' @ msg))
           | LibraryError msg \<Rightarrow> Inl (Error (''Failed to switch to BNB Smart Chain: '' @ msg))))"

definition connectTrustWallet ::
  "wallet_manager \<Rightarrow> ethereum \<Rightarrow> (error + connection) \<times> wallet_manager" where
  "connectTrustWallet s e =
     (case requestAccounts e of
        Inl err \<Rightarrow> (Inl err, s)
      | Inr accounts \<Rightarrow>
          (case accounts of
             [] \<Rightarrow> (Inl (Error ''Trust Wallet failed to provide accounts. Please unlock it.''), s)
           | a # _ \<Rightarrow>
               (case getNetwork e of
                  Inl err \<Rightarrow> (Inl err, s)
                | Inr chainId \<Rightarrow>
                    (case (if chainId \<noteq> 56
                           then (case switchToBNB e of
                                   Inl err \<Rightarrow> Inl err
                                 | Inr chainId' \<Rightarrow>
                                     if chainId' \<noteq> 56
                                     then Inl (Error ''Please switch Trust Wallet to BNB Smart Chain.'')
                                     else Inr ())
                           else Inr ()) of
                       Inl err \<Rightarrow> (Inl err, s)
                     | Inr _ \<Rightarrow>
                         (Inr (a, ''BNB Smart Chain''),
                          s\<lparr>publicKey := Some a, connectedWalletType := Some Trust\<rparr>)))))"

subsection \<open>\<open>WalletManager.connect\<close>\<close>

text \<open>The \<open>switch\<close> of the extension path.  \<open>hasWalletExtension\<close> has been checked
  before it, so the provider object is there; reading it when it is not is a
  \<open>TypeError\<close>.\<close>

fun handshake ::
  "wallet_manager \<Rightarrow> window \<Rightarrow> wallet \<Rightarrow> (error + connection) \<times> wallet_manager" where
  "handshake s w MetaMask =
     (case ethereum w of
        None \<Rightarrow> (Inl (TypeError ''window.ethereum is undefined''), s)
      | Some e \<Rightarrow> connectMetaMask s e)"
| "handshake s w Phantom =
     (case solana w of
        None \<Rightarrow> (Inl (TypeError ''window.solana is undefined''), s)
      | Some p \<Rightarrow> connectPhantom s p)"
| "handshake s w Trust =
     (case ethereum w of
        None \<Rightarrow> (Inl (TypeError ''window.ethereum is undefined''), s)
      | Some e \<Rightarrow> connectTrustWallet s e)"
| "handshake s w (Other n) = (Inl (Error (''Unknown wallet: '' @ n)), s)"

text \<open>
  The body of the \<open>setInterval\<close> callback: which provider the tick finds, and the
  handshake it then runs.  \<open>None\<close>: the tick finds nothing and does nothing.
\<close>

definition pollTick ::
  "wallet_manager \<Rightarrow> window \<Rightarrow> wallet \<Rightarrow> ((error + connection) \<times> wallet_manager) option" where
  "pollTick s w name =
     (if name = MetaMask \<and> (case ethereum w of None \<Rightarrow> False | Some e \<Rightarrow> isMetaMask e)
      then (case ethereum w of None \<Rightarrow> None | Some e \<Rightarrow> Some (connectMetaMask s e))
      else if name = Phantom \<and> (case solana w of None \<Rightarrow> False | Some p \<Rightarrow> isPhantom p)
      then (case solana w of None \<Rightarrow> None | Some p \<Rightarrow> Some (connectPhantom s p))
      else if name = Trust \<and> (case ethereum w of None \<Rightarrow> False | Some e \<Rightarrow> trustFlag w e)
      then (case ethereum w of None \<Rightarrow> None | Some e \<Rightarrow> Some (connectTrustWallet s e))
      else None)"

text \<open>
  Time is counted in milliseconds from the moment the two timers are set.
  \<open>window_at k\<close> is the window the \<open>k\<close>-th interval tick sees, at \<open>1000 * k\<close> ms;
  \<open>handshake_ms\<close> is how long a handshake started by a tick takes to settle.
  \<open>now\<close> is the window at the call of \<open>connect\<close>.
\<close>

record connect_env =
  now :: window
  window_at :: "nat \<Rightarrow> window"
  handshake_ms :: nat

definition POLL_INTERVAL :: nat where "POLL_INTERVAL = 1000"
definition POLL_TIMEOUT :: nat where "POLL_TIMEOUT = 30000"

text \<open>The first tick, among \<open>n\<close> ticks from tick \<open>k\<close> on, that finds the provider.\<close>

primrec firstTick :: "wallet_manager \<Rightarrow> (nat \<Rightarrow> window) \<Rightarrow> wallet \<Rightarrow> nat \<Rightarrow> nat \<Rightarrow> nat option" where
  "firstTick s wa name k 0 = None"
| "firstTick s wa name k (Suc n) =
     (if pollTick s (wa k) name \<noteq> None then Some k else firstTick s wa name (Suc k) n)"

text \<open>
  What the promise of the deep-link path settles with: \<open>settled_at\<close> the time,
  \<open>outcome\<close> the value or the error, \<open>state_then\<close> the manager at that moment and
  \<open>state_finally\<close> the manager once a handshake still running at the timeout has ended
  (its \<open>resolve\<close> or \<open>reject\<close> then has no effect on the promise, its assignments do).
  The ticks that run before the timeout are those at 1000, ..., 29000 ms; at the equal due
  time 30000 the timeout callback is taken to run first, and it clears the interval.
  A handshake started at tick \<open>k\<close> settles the promise when it ends before the timeout.
\<close>

record polled =
  settled_at :: nat
  outcome :: "error + connection"
  state_then :: wallet_manager
  state_finally :: wallet_manager

definition timedOut :: error where
  "timedOut = Error ''Connection timed out. Please open the site in your wallet browser.''"

definition deeplinkPoll :: "wallet_manager \<Rightarrow> connect_env \<Rightarrow> wallet \<Rightarrow> polled" where
  "deeplinkPoll s env name =
     (case firstTick s (window_at env) name 1 ((POLL_TIMEOUT - 1) div POLL_INTERVAL) of
        None \<Rightarrow>
          \<lparr>settled_at = POLL_TIMEOUT, outcome = Inl timedOut,
           state_then = s\<lparr>connecting := False\<rparr>, state_finally = s\<lparr>connecting := False\<rparr>\<rparr>
      | Some k \<Rightarrow>
          (case pollTick s (window_at env k) name of
             None \<Rightarrow>
               \<lparr>settled_at = POLL_TIMEOUT, outcome = Inl timedOut,
                state_then = s\<lparr>connecting := False\<rparr>, state_finally = s\<lparr>connecting := False\<rparr>\<rparr>
           | Some (r, s') \<Rightarrow>
               if POLL_INTERVAL * k + handshake_ms env < POLL_TIMEOUT
               then \<lparr>settled_at = POLL_INTERVAL * k + handshake_ms env, outcome = r,
                     state_then = s'\<lparr>connecting := False\<rparr>,
                     state_finally = s'\<lparr>connecting := False\<rparr>\<rparr>
               else \<lparr>settled_at = POLL_TIMEOUT, outcome = Inl timedOut,
                     state_then = s\<lparr>connecting := False\<rparr>,
                     state_finally = s'\<lparr>connecting := False\<rparr>\<rparr>))"

text \<open>
  \<open>connect_enter\<close> is the part of \<open>connect\<close> before the \<open>try\<close>: the two guards and
  \<open>this.connecting = true\<close>.  \<open>connect_complete\<close> is the \<open>try\<close> block, run from the
  state \<open>connect_enter\<close> leaves; on every path it ends with \<open>connecting\<close> false
  (the assignment before \<open>return\<close>, the \<open>catch\<close>, the tick and the timeout).
  Both return the manager as it is when the promise settles.
\<close>

definition connect_enter :: "wallet_manager \<Rightarrow> window \<Rightarrow> error option \<times> wallet_manager" where
  "connect_enter s w =
     (if connecting s then (Some (Error ''Connection already in progress''), s)
      else if \<not> onLine w
      then (Some (Error ''No internet connection. Please check your network.''), s)
      else (None, s\<lparr>connecting := True\<rparr>))"

definition connect_complete ::
  "wallet_manager \<Rightarrow> connect_env \<Rightarrow> wallet \<Rightarrow> (error + connection) \<times> wallet_manager" where
  "connect_complete s env name =
     (let isMobile = isMobileDevice (now env);
          hasExtension = hasWalletExtension (now env) name
      in if \<not> isMobile \<or> hasExtension
         then if \<not> hasExtension
              then (Inl (Error (walletName name @ '' extension not detected. Please install it.'')),
                    s\<lparr>connecting := False\<rparr>)
              else (case handshake s (now env) name of
                      (r, s') \<Rightarrow> (r, s'\<lparr>connecting := False\<rparr>))
         else (case DEEP_LINKS name of
                 None \<Rightarrow>
                   (Inl (Error (''No deeplink configured for '' @ walletName name)),
                    s\<lparr>connecting := False\<rparr>)
               | Some deeplink \<Rightarrow>
                   (outcome (deeplinkPoll s env name), state_then (deeplinkPoll s env name))))"

definition connect ::
  "wallet_manager \<Rightarrow> connect_env \<Rightarrow> wallet \<Rightarrow> (error + connection) \<times> wallet_manager" where
  "connect s env name =
     (case connect_enter s (now env) of
        (Some err, s') \<Rightarrow> (Inl err, s')
      | (None, s') \<Rightarrow> connect_complete s' env name)"

subsection \<open>\<open>checkExistingConnection\<close>, \<open>disconnect\<close>\<close>

text \<open>The requests a function sends to the providers, in order.  Those that make the
  wallet ask the user are \<open>prompts\<close>.\<close>

datatype call =
  SolanaConnect bool
  | EthRequestAccounts
  | EthGetNetwork
  | EthSwitchChain
  | EthAddChain

fun prompts :: "call \<Rightarrow> bool" where
  "prompts (SolanaConnect onlyIfTrusted) = (\<not> onlyIfTrusted)"
| "prompts EthRequestAccounts = True"
| "prompts EthGetNetwork = False"
| "prompts EthSwitchChain = True"
| "prompts EthAddChain = True"

type_synonym existing = "string \<times> string \<times> wallet"

text \<open>The second half of \<open>checkExistingConnection\<close> (the MetaMask/Trust check), with
  the requests already sent before it.  \<open>selectedAddress\<close> is read in a condition:
  it passes when it is a non-empty string.\<close>

definition checkEthereum ::
  "wallet_manager \<Rightarrow> window \<Rightarrow> call list \<Rightarrow> (error + existing option) \<times> wallet_manager \<times> call list" where
  "checkEthereum s w cs =
     (case ethereum w of
        None \<Rightarrow> (Inr None, s, cs)
      | Some e \<Rightarrow>
          (case selectedAddress e of
             None \<Rightarrow> (Inr None, s, cs)
           | Some addr \<Rightarrow>
               if addr = [] then (Inr None, s, cs)
               else (case getNetwork e of
                       Inl err \<Rightarrow> (Inl err, s, cs @ [EthGetNetwork])
                     | Inr chainId \<Rightarrow>
                         (let s1 = s\<lparr>publicKey := Some addr\<rparr>
                          in if isMetaMask e \<and> chainId = 1
                             then (Inr (Some (addr, ''Ethereum'', MetaMask)),
                                   s1\<lparr>connectedWalletType := Some MetaMask\<rparr>,
                                   cs @ [EthGetNetwork])
                             else if trustFlag w e \<and> chainId = 56
                             then (Inr (Some (addr, ''BNB Smart Chain'', Trust)),
                                   s1\<lparr>connectedWalletType := Some Trust\<rparr>,
                                   cs @ [EthGetNetwork])
                             else (Inr None, s1, cs @ [EthGetNetwork])))))"

definition checkExistingConnection ::
  "wallet_manager \<Rightarrow> window \<Rightarrow> (error + existing option) \<times> wallet_manager \<times> call list" where
  "checkExistingConnection s w =
     (case solana w of
        None \<Rightarrow> checkEthereum s w []
      | Some p \<Rightarrow>
          if isPhantom p \<and> isConnected p
          then (case connectTrusted p of
                  Inr pk \<Rightarrow>
                    (Inr (Some (pk, ''Solana'', Phantom)),
                     s\<lparr>publicKey := Some pk, connectedWalletType := Some Phantom,
                       solConnection := Some SOLANA_RPC_URL\<rparr>,
                     [SolanaConnect True])
                | Inl err \<Rightarrow> checkEthereum s w [SolanaConnect True])
          else checkEthereum s w [])"

definition disconnect :: "wallet_manager \<Rightarrow> wallet_manager" where
  "disconnect s = s\<lparr>publicKey := None, connectedWalletType := None, solConnection := None\<rparr>"

text \<open>The invariant of the data model: the account is set exactly when the provider
  kind is.\<close>

definition paired :: "wallet_manager \<Rightarrow> bool" where
  "paired s = ((publicKey s \<noteq> None) = (connectedWalletType s \<noteq> None))"

subsection \<open>\<open>setupEventListeners\<close>\<close>










subsection \<open>JavaScript numbers\<close>

text \<open>
  A Number is an IEEE 754 double: a rational with a 53-bit significand, an infinity or NaN
  (the sign of zero is not kept).  \<open>roundToDouble\<close> is the rounding every arithmetic
  operation and every literal goes through: to the nearest double, ties to the even
  significand, with gradual underflow below \<open>2^-1022\<close> and overflow to an infinity.
\<close>

datatype number = Finite rat | NaN | PosInfinity | NegInfinity

function bitLength :: "int \<Rightarrow> int" where
  "bitLength n = (if n \<le> 0 then 0 else 1 + bitLength (n div 2))"
  by pat_completeness auto
termination
  by (relation "measure nat") auto

definition pow2 :: "int \<Rightarrow> rat" where
  "pow2 e = (if 0 \<le> e then 2 ^ nat e else 1 / 2 ^ nat (- e))"

text \<open>\<open>binade q\<close> is the \<open>e\<close> with \<open>2^e \<le> |q| < 2^(e+1)\<close>, for \<open>q \<noteq> 0\<close>.\<close>

definition binade :: "rat \<Rightarrow> int" where
  "binade q =
     (case quotient_of \<bar>q\<bar> of (n, d) \<Rightarrow>
        (let e = bitLength n - bitLength d
         in if pow2 e \<le> \<bar>q\<bar> then e else e - 1))"

definition roundHalfEven :: "rat \<Rightarrow> int" where
  "roundHalfEven q =
     (let f = \<lfloor>q\<rfloor>; r = q - of_int f
      in if r < 1 / 2 then f else if 1 / 2 < r then f + 1 else if even f then f else f + 1)"

definition roundToDouble :: "rat \<Rightarrow> number" where
  "roundToDouble q =
     (if q = 0 then Finite 0
      else (let ulp = pow2 (max (binade q) (- 1022) - 52);
                v = of_int (roundHalfEven (q / ulp)) * ulp
            in if pow2 1024 \<le> \<bar>v\<bar> then (if 0 < q then PosInfinity else NegInfinity)
               else Finite v))"

text \<open>The Number a decimal literal, or \<open>parseFloat\<close> of a decimal string, denotes.\<close>

definition literal :: "rat \<Rightarrow> number" where
  "literal q = roundToDouble q"

definition signum :: "number \<Rightarrow> int" where
  "signum x =
     (case x of Finite a \<Rightarrow> (if a < 0 then - 1 else if a = 0 then 0 else 1)
      | NaN \<Rightarrow> 0 | PosInfinity \<Rightarrow> 1 | NegInfinity \<Rightarrow> - 1)"

text \<open>\<open>x * y\<close>, \<open>Math.floor(x)\<close> and \<open>x < y\<close>.\<close>

definition times_js :: "number \<Rightarrow> number \<Rightarrow> number" where
  "times_js x y =
     (if x = NaN \<or> y = NaN then NaN
      else (case (x, y) of
              (Finite a, Finite b) \<Rightarrow> roundToDouble (a * b)
            | _ \<Rightarrow>
               (if signum x * signum y = 0 then NaN
                else if 0 < signum x * signum y then PosInfinity else NegInfinity)))"

fun floor_js :: "number \<Rightarrow> number" where
  "floor_js (Finite a) = Finite (of_int \<lfloor>a\<rfloor>)"
| "floor_js x = x"


subsection \<open>\<open>Number.prototype.toString\<close>\<close>











subsection \<open>\<open>ethers.parseEther\<close>\<close>




subsection \<open>\<open>TransactionService\<close>\<close>


definition BOOST_ADDRESSES_solana :: string where
  "BOOST_ADDRESSES_solana = ''73F2hbzhk7ZuTSSYTSbemddFasVrW8Av5FD9PeMVmxA7''"


definition LAMPORTS_PER_SOL :: number where
  "LAMPORTS_PER_SOL = Finite 1000000000"

text \<open>
  What the signer, the wallet and the RPC connection answer during one transfer:
  \<open>getSigner\<close>, \<open>getAddress\<close>, \<open>sendTransaction\<close> (the \<open>hash\<close> of the response) and
  \<open>wait\<close> (the \<open>hash\<close> of the receipt) on the ethers side; \<open>newPublicKey\<close> (the
  \<open>PublicKey\<close> constructor), \<open>systemTransfer\<close> (\<open>SystemProgram.transfer\<close> and the
  compilation of the message, by the lamports given), \<open>getLatestBlockhash\<close>,
  \<open>signTransaction\<close>, \<open>sendSigned\<close> (\<open>solConnection.sendTransaction\<close>, the signature)
  and \<open>confirmTransaction\<close> on the Solana side.  The last gives
  \<open>confirmation.value.err\<close>: \<open>None\<close> for null, else the text \<open>JSON.stringify\<close> makes
  of the error object.
\<close>

record answers =
  getSigner :: "error + unit"
  getAddress :: "error + string"
  sendTransaction :: "error + string"
  wait :: "error + string"
  newPublicKey :: "string \<Rightarrow> error + string"
  systemTransfer :: "number \<Rightarrow> error + unit"
  getLatestBlockhash :: "error + string \<times> nat"
  signTransaction :: "error + unit"
  sendSigned :: "error + string"
  confirmTransaction :: "error + string option"

text \<open>
  What a transfer asks of the outside, in order: \<open>SendTransaction to value gasLimit\<close> is
  the request to the signer; \<open>SystemTransfer from to lamports\<close> is the transfer
  instruction built; \<open>SignTransaction\<close> asks the wallet to sign it and \<open>SendSigned\<close>
  sends it to the network.
\<close>

datatype request =
  SendTransaction string int nat
  | SystemTransfer string string number
  | SignTransaction
  | SendSigned

definition initializeSolanaConnection :: "string option \<Rightarrow> string option" where
  "initializeSolanaConnection conn = (case conn of None \<Rightarrow> Some SOLANA_RPC_URL | Some c \<Rightarrow> Some c)"




text \<open>\<open>boostWithPhantom\<close> also returns the service's \<open>solConnection\<close> field.\<close>

definition boostWithPhantom ::
  "window \<Rightarrow> answers \<Rightarrow> string option \<Rightarrow> number \<Rightarrow> string
     \<Rightarrow> (error + string) \<times> string option \<times> request list" where
  "boostWithPhantom w a conn amount pk =
     (if solana w = None then (Inl (Error ''Phantom wallet not found''), conn, [])
      else
        (let conn' = initializeSolanaConnection conn;
             lamports = floor_js (times_js amount LAMPORTS_PER_SOL)
         in case newPublicKey a pk of
              Inl err \<Rightarrow> (Inl err, conn', [])
            | Inr senderPublicKey \<Rightarrow>
               (case newPublicKey a BOOST_ADDRESSES_solana of
                  Inl err \<Rightarrow> (Inl err, conn', [])
                | Inr recipientPublicKey \<Rightarrow>
                   (let built = [SystemTransfer senderPublicKey recipientPublicKey lamports]
                    in case systemTransfer a lamports of
                         Inl err \<Rightarrow> (Inl err, conn', built)
                       | Inr _ \<Rightarrow>
                          (case getLatestBlockhash a of
                             Inl err \<Rightarrow> (Inl err, conn', built)
                           | Inr _ \<Rightarrow>
                              (case signTransaction a of
                                 Inl err \<Rightarrow> (Inl err, conn', built @ [SignTransaction])
                               | Inr _ \<Rightarrow>
                                  (case sendSigned a of
                                     Inl err \<Rightarrow>
                                       (Inl err, conn', built @ [SignTransaction, SendSigned])
                                   | Inr signature \<Rightarrow>
                                      (case confirmTransaction a of
                                         Inl err \<Rightarrow>
                                           (Inl err, conn', built @ [SignTransaction, SendSigned])
                                       | Inr (Some detail) \<Rightarrow>
                                           (Inl (Error (''Transaction failed: '' @ detail)), conn',
                                            built @ [SignTransaction, SendSigned])
                                       | Inr None \<Rightarrow>
                                           (Inr signature, conn',
                                            built @ [SignTransaction, SendSigned])))))))))"

subsection \<open>\<open>handleBoostNow\<close> (\<open>main.js\<close>)\<close>



text \<open>Environments of the examples: a desktop browser with MetaMask on a test network, and
  a phone browser with no wallet in it, at every tick.\<close>

definition desktopUA :: string where
  "desktopUA = ''Mozilla/5.0 (X11; Linux x86_64) Chrome/120.0''"

definition phoneUA :: string where
  "phoneUA = ''Mozilla/5.0 (Linux; Android 13; Pixel 7) Chrome/120.0 Mobile''"

definition metaMaskOn :: "int \<Rightarrow> ethereum" where
  "metaMaskOn chainId =
     \<lparr>isMetaMask = True, isTrustWallet = False, selectedAddress = Some ''0xAb12'',
      requestAccounts = Inr [''0xAb12''], getNetwork = Inr chainId,
      switchChain = Inl (ProviderError 4001 ''User rejected the request.''),
      getNetworkSwitched = Inr chainId,
      addChain = Inl (ProviderError 4001 ''User rejected the request.''),
      getNetworkAdded = Inr chainId\<rparr>"

definition desktopWith :: "ethereum option \<Rightarrow> window" where
  "desktopWith e = \<lparr>ethereum = e, solana = None, userAgent = desktopUA, onLine = True\<rparr>"

definition barePhone :: window where
  "barePhone = \<lparr>ethereum = None, solana = None, userAgent = phoneUA, onLine = True\<rparr>"

definition always :: "window \<Rightarrow> nat \<Rightarrow> window" where
  "always w k = w"

definition steady :: "window \<Rightarrow> connect_env" where
  "steady w = \<lparr>now = w, window_at = always w, handshake_ms = 250\<rparr>"

text \<open>Answers of a transfer that goes through, and of one whose confirmation reports an
  error; a browser with Phantom in it.\<close>

definition sender :: string where
  "sender = ''Sender11111111111111111111111111111111111111''"

definition accept :: "string \<Rightarrow> error + string" where
  "accept k = Inr k"

definition builds :: "number \<Rightarrow> error + unit" where
  "builds lamports = Inr ()"

definition approving :: answers where
  "approving =
     \<lparr>getSigner = Inr (), getAddress = Inr ''0xAb12'',
      sendTransaction = Inr ''0x5c504ed432cb51138bcf09aa5e8a410dd4a1e204ef84bfed1be16dfba1b22060'',
      wait = Inr ''0x5c504ed432cb51138bcf09aa5e8a410dd4a1e204ef84bfed1be16dfba1b22060'',
      newPublicKey = accept, systemTransfer = builds,
      getLatestBlockhash = Inr (''EkSnNWid2cvwEVnVx9aBqawnmiCNiDgp3gUdkDPTKN1N'', 250000000),
      signTransaction = Inr (),
      sendSigned = Inr ''5VERv8NMvzbJMEkV8xnrLkEaWRtSz9CosKDYjCJjBRnb'',
      confirmTransaction = Inr None\<rparr>"

definition reporting :: "string \<Rightarrow> answers" where
  "reporting detail = approving\<lparr>confirmTransaction := Inr (Some detail)\<rparr>"

definition phantomWindow :: window where
  "phantomWindow =
     \<lparr>ethereum = None,
      solana = Some \<lparr>isPhantom = True, isConnected = True,
                     connect_answer = Inr sender, connectTrusted = Inr sender\<rparr>,
      userAgent = desktopUA, onLine = True\<rparr>"

text \<open>A phone on which MetaMask shows up at the 29th tick, with a handshake that takes two
  seconds.\<close>

definition appearsAt :: "nat \<Rightarrow> window \<Rightarrow> window \<Rightarrow> nat \<Rightarrow> window" where
  "appearsAt k0 before after k = (if k < k0 then before else after)"

definition lateEnv :: connect_env where
  "lateEnv =
     \<lparr>now = barePhone,
      window_at = appearsAt 29 barePhone (barePhone\<lparr>ethereum := Some (metaMaskOn 1)\<rparr>),
      handshake_ms = 2000\<rparr>"

section \<open>Properties\<close>

subsection \<open>Shared lemmas\<close>






text \<open>A tick finds a provider exactly when \<open>hasWalletExtension\<close> would.\<close>

lemma pollTick_None_iff: "pollTick s w name = None \<longleftrightarrow> \<not> hasWalletExtension w name"
  by (cases name) (auto simp: pollTick_def split: option.splits)

lemma firstTick_None:
  "(\<forall>j. k \<le> j \<and> j < k + n \<longrightarrow> pollTick s (wa j) name = None) \<Longrightarrow>
     firstTick s wa name k n = None"
  by (induction n arbitrary: k) auto

lemma firstTick_Some:
  "firstTick s wa name k n = Some j \<Longrightarrow>
     k \<le> j \<and> j < k + n \<and> pollTick s (wa j) name \<noteq> None"
  by (induction n arbitrary: k) (fastforce split: if_splits)+

lemma deeplinkPoll_never:
  assumes "\<forall>k. 1 \<le> k \<and> k < 30 \<longrightarrow> \<not> hasWalletExtension (window_at env k) name"
  shows "deeplinkPoll s env name =
           \<lparr>settled_at = 30000, outcome = Inl timedOut,
            state_then = s\<lparr>connecting := False\<rparr>, state_finally = s\<lparr>connecting := False\<rparr>\<rparr>"
proof -
  have "firstTick s (window_at env) name 1 29 = None"
    by (rule firstTick_None) (use assms in \<open>simp add: pollTick_None_iff\<close>)
  then show ?thesis
    by (simp add: deeplinkPoll_def POLL_TIMEOUT_def POLL_INTERVAL_def)
qed

text \<open>A tick that finds the provider does so at a whole number of seconds before the
  timeout, and a handshake that ends in time settles the promise then.\<close>

lemma deeplinkPoll_found:
  assumes "firstTick s (window_at env) name 1 29 = Some k"
    and "1000 * k + handshake_ms env < 30000"
  shows "1 \<le> k \<and> k < 30 \<and> settled_at (deeplinkPoll s env name) = 1000 * k + handshake_ms env"
  using assms firstTick_Some[OF assms(1)]
  by (auto simp: deeplinkPoll_def POLL_TIMEOUT_def POLL_INTERVAL_def split: option.splits)

lemma deeplinkPoll_le: "settled_at (deeplinkPoll s env name) \<le> 30000"
  by (auto simp: deeplinkPoll_def POLL_TIMEOUT_def POLL_INTERVAL_def split: option.splits)


lemma firstTick_at:
  "\<lbrakk>\<forall>j. k \<le> j \<and> j < k0 \<longrightarrow> pollTick s (wa j) name = None;
    pollTick s (wa k0) name \<noteq> None; k \<le> k0; k0 < k + n\<rbrakk>
   \<Longrightarrow> firstTick s wa name k n = Some k0"
proof (induction n arbitrary: k)
  case 0
  then show ?case by simp
next
  case (Suc n)
  show ?case
  proof (cases "k = k0")
    case True
    with Suc.prems show ?thesis by simp
  next
    case False
    with Suc.prems have "pollTick s (wa k) name = None" "Suc k \<le> k0" "k0 < Suc k + n"
      by auto
    moreover from Suc.prems have "\<forall>j. Suc k \<le> j \<and> j < k0 \<longrightarrow> pollTick s (wa j) name = None"
      by auto
    ultimately show ?thesis
      using Suc.IH[of "Suc k"] Suc.prems(2) by simp
  qed
qed

text \<open>
  The timeout does not stop a handshake that is running: when the provider shows up at the
  29th tick and the handshake takes two seconds, the promise is rejected at 30000 ms with
  the manager's account untouched, and the handshake assigns the account a second later.
\<close>

lemma late_handshake_assigns:
  "outcome (deeplinkPoll (constructor\<lparr>connecting := True\<rparr>) lateEnv MetaMask) = Inl timedOut \<and>
   settled_at (deeplinkPoll (constructor\<lparr>connecting := True\<rparr>) lateEnv MetaMask) = 30000 \<and>
   publicKey (state_then (deeplinkPoll (constructor\<lparr>connecting := True\<rparr>) lateEnv MetaMask)) = None \<and>
   publicKey (state_finally (deeplinkPoll (constructor\<lparr>connecting := True\<rparr>) lateEnv MetaMask))
     = Some ''0xAb12''"
proof -
  have "firstTick (constructor\<lparr>connecting := True\<rparr>) (window_at lateEnv) MetaMask 1 29 = Some 29"
    by (rule firstTick_at)
       (simp_all add: lateEnv_def appearsAt_def pollTick_None_iff barePhone_def metaMaskOn_def)
  then show ?thesis
    by (simp add: deeplinkPoll_def POLL_TIMEOUT_def POLL_INTERVAL_def lateEnv_def appearsAt_def
          pollTick_def barePhone_def metaMaskOn_def connectMetaMask_def constructor_def)
qed

lemma desktop_not_mobile: "\<not> isMobileDevice (desktopWith e)"
  by (simp add: desktopWith_def desktopUA_def isMobileDevice_def test_ci_def toLowerCase_def
        lower_char_def)

lemma phone_mobile: "isMobileDevice barePhone"
  by (simp add: barePhone_def phoneUA_def isMobileDevice_def test_ci_def toLowerCase_def
        lower_char_def)

text \<open>The handshakes and \<open>disconnect\<close> set or clear the account and the provider kind
  together.\<close>

lemma handshake_paired: "paired s \<Longrightarrow> paired (snd (handshake s w name))"
  by (cases name)
     (auto simp: paired_def connectMetaMask_def connectPhantom_def connectTrustWallet_def
           split: option.splits sum.splits list.splits if_splits)

lemma disconnect_paired: "paired (disconnect s)"
  by (simp add: paired_def disconnect_def)

lemma contains_self: "contains p p"
  by (cases p) simp_all

lemma contains_append: "contains p (xs @ p)"
  by (induction xs) (simp_all add: contains_self)

subsection \<open>Evaluating the number functions\<close>
















subsection \<open>Claims on the wallet session\<close>

text \<open>
  C1.  The claim: after every operation of the manager the account (\<open>publicKey\<close>) is set
  exactly when the provider kind (\<open>connectedWalletType\<close>) is.  The handshakes and
  \<open>disconnect\<close> keep this (\<open>handshake_paired\<close>, \<open>disconnect_paired\<close>), but
  \<open>checkExistingConnection\<close> assigns \<open>publicKey\<close> before it has decided on a provider
  kind: on a fresh manager, with MetaMask holding a selected address on chain 5, it returns
  null and leaves the account set and the provider kind null.
\<close>

theorem checkExistingConnection_unpaired:
  "paired constructor \<and>
   checkExistingConnection constructor (desktopWith (Some (metaMaskOn 5)))
     = (Inr None, constructor\<lparr>publicKey := Some ''0xAb12''\<rparr>, [EthGetNetwork]) \<and>
   publicKey (constructor\<lparr>publicKey := Some ''0xAb12''\<rparr>) \<noteq> None \<and>
   connectedWalletType (constructor\<lparr>publicKey := Some ''0xAb12''\<rparr>) = None"
  by (simp add: paired_def constructor_def checkExistingConnection_def checkEthereum_def
        desktopWith_def metaMaskOn_def)

text \<open>
  C4, as stated: with no matching provider, \<open>connect\<close> fails with the not-detected error
  on mobile as on desktop.  It does not: on a phone with no wallet in the browser,
  \<open>connect\<close> for Phantom takes the deep-link path and ends with the time-out error.
\<close>

theorem connect_on_phone_times_out:
  "\<not> hasWalletExtension (now (steady barePhone)) Phantom \<and>
   fst (connect constructor (steady barePhone) Phantom) = Inl timedOut \<and>
   fst (connect constructor (steady barePhone) Phantom)
     \<noteq> Inl (Error (walletName Phantom @ '' extension not detected. Please install it.''))"
proof -
  have "\<forall>k. 1 \<le> k \<and> k < 30 \<longrightarrow> \<not> hasWalletExtension (window_at (steady barePhone) k) Phantom"
    by (simp add: steady_def always_def barePhone_def)
  from deeplinkPoll_never[OF this]
  have "fst (connect constructor (steady barePhone) Phantom) = Inl timedOut"
    by (simp add: connect_def connect_enter_def connect_complete_def phone_mobile steady_def
          constructor_def)
       (simp add: barePhone_def)
  then show ?thesis
    by (simp add: timedOut_def steady_def barePhone_def)
qed

text \<open>
  C4, amended: when no connect is in flight and the browser is online, \<open>connect\<close> with no
  matching provider fails with the not-detected error on a device that is not mobile, and
  leaves the manager as it was; on a mobile device, for a wallet that has a deep link, it
  takes the deep-link path instead and settles as the polling does.
\<close>

theorem connect_without_provider:
  assumes "\<not> connecting s" and "onLine (now env)" and "\<not> hasWalletExtension (now env) name"
  shows "(\<not> isMobileDevice (now env) \<longrightarrow>
            connect s env name =
              (Inl (Error (walletName name @ '' extension not detected. Please install it.'')), s))
       \<and> (isMobileDevice (now env) \<and> DEEP_LINKS name \<noteq> None \<longrightarrow>
            connect s env name =
              (outcome (deeplinkPoll (s\<lparr>connecting := True\<rparr>) env name),
               state_then (deeplinkPoll (s\<lparr>connecting := True\<rparr>) env name)))"
  using assms
  by (auto simp: connect_def connect_enter_def connect_complete_def Let_def)

theorem connect_without_provider_witness:
  "connect constructor (steady (desktopWith None)) Trust =
     (Inl (Error ''Trust extension not detected. Please install it.''), constructor)"
proof -
  have "\<not> connecting constructor" by (simp add: constructor_def)
  moreover have "onLine (now (steady (desktopWith None)))"
    by (simp add: steady_def desktopWith_def)
  moreover have "\<not> hasWalletExtension (now (steady (desktopWith None))) Trust"
    by (simp add: steady_def desktopWith_def)
  moreover have "\<not> isMobileDevice (now (steady (desktopWith None)))"
    by (simp add: steady_def desktop_not_mobile)
  ultimately show ?thesis
    using connect_without_provider[of constructor "steady (desktopWith None)" Trust] by simp
qed







text \<open>
  C9.  \<open>checkExistingConnection\<close> sends the providers no request that makes the wallet
  ask the user: only \<open>connect({onlyIfTrusted: true})\<close> and the read of the network.
  Phantom is asked first, and a trusted Phantom session is adopted whatever the other
  provider says.  When there is no trusted session (Phantom absent, not connected or
  refusing, and no selected address on \<open>window.ethereum\<close>), the result is null, nothing
  is thrown and the manager is unchanged.
\<close>

theorem checkExistingConnection_passive:
  "(\<forall>c \<in> set (snd (snd (checkExistingConnection s w))). \<not> prompts c) \<and>
   (\<forall>p pk. solana w = Some p \<and> isPhantom p \<and> isConnected p \<and> connectTrusted p = Inr pk \<longrightarrow>
      fst (checkExistingConnection s w) = Inr (Some (pk, ''Solana'', Phantom))) \<and>
   ((case solana w of None \<Rightarrow> True
     | Some p \<Rightarrow> \<not> (isPhantom p \<and> isConnected p) \<or> isl (connectTrusted p)) \<and>
    (case ethereum w of None \<Rightarrow> True
     | Some e \<Rightarrow> selectedAddress e = None \<or> selectedAddress e = Some []) \<longrightarrow>
      fst (checkExistingConnection s w) = Inr None \<and>
      fst (snd (checkExistingConnection s w)) = s)"
proof (intro conjI)
  have eth: "\<forall>c \<in> set (snd (snd (checkEthereum s w cs))). \<not> prompts c"
    if "\<forall>c \<in> set cs. \<not> prompts c" for cs
    using that by (auto simp: checkEthereum_def Let_def split: option.splits sum.splits)
  show "\<forall>c \<in> set (snd (snd (checkExistingConnection s w))). \<not> prompts c"
    using eth[of "[]"] eth[of "[SolanaConnect True]"]
    by (simp add: checkExistingConnection_def split: option.splits sum.splits)
next
  show "\<forall>p pk. solana w = Some p \<and> isPhantom p \<and> isConnected p \<and> connectTrusted p = Inr pk \<longrightarrow>
      fst (checkExistingConnection s w) = Inr (Some (pk, ''Solana'', Phantom))"
    by (simp add: checkExistingConnection_def)
next
  have eth: "fst (checkEthereum s w cs) = Inr None \<and> fst (snd (checkEthereum s w cs)) = s"
    if "case ethereum w of None \<Rightarrow> True
        | Some e \<Rightarrow> selectedAddress e = None \<or> selectedAddress e = Some []" for cs
    using that by (auto simp: checkEthereum_def split: option.splits)
  show "(case solana w of None \<Rightarrow> True
         | Some p \<Rightarrow> \<not> (isPhantom p \<and> isConnected p) \<or> isl (connectTrusted p)) \<and>
        (case ethereum w of None \<Rightarrow> True
         | Some e \<Rightarrow> selectedAddress e = None \<or> selectedAddress e = Some []) \<longrightarrow>
        fst (checkExistingConnection s w) = Inr None \<and>
        fst (snd (checkExistingConnection s w)) = s"
    using eth
    by (auto simp: checkExistingConnection_def isl_def split: option.splits sum.splits)
qed

theorem checkExistingConnection_passive_witness:
  "checkExistingConnection constructor
     (phantomWindow\<lparr>solana := Some \<lparr>isPhantom = True, isConnected = True,
         connect_answer = Inr sender,
         connectTrusted = Inl (ProviderError 4001 ''User rejected the request.'')\<rparr>,
       ethereum := Some ((metaMaskOn 1)\<lparr>selectedAddress := None\<rparr>)\<rparr>)
   = (Inr None, constructor, [SolanaConnect True]) \<and>
   \<not> prompts (SolanaConnect True) \<and>
   fst (checkExistingConnection constructor phantomWindow) = Inr (Some (sender, ''Solana'', Phantom))"
proof -
  let ?w = "phantomWindow\<lparr>solana := Some \<lparr>isPhantom = True, isConnected = True,
         connect_answer = Inr sender,
         connectTrusted = Inl (ProviderError 4001 ''User rejected the request.'')\<rparr>,
       ethereum := Some ((metaMaskOn 1)\<lparr>selectedAddress := None\<rparr>)\<rparr>"
  have calls: "snd (snd (checkExistingConnection constructor ?w)) = [SolanaConnect True]"
    by (simp add: checkExistingConnection_def checkEthereum_def phantomWindow_def metaMaskOn_def)
  have none: "(case solana ?w of None \<Rightarrow> True
     | Some p \<Rightarrow> \<not> (isPhantom p \<and> isConnected p) \<or> isl (connectTrusted p)) \<and>
    (case ethereum ?w of None \<Rightarrow> True
     | Some e \<Rightarrow> selectedAddress e = None \<or> selectedAddress e = Some [])"
    by (simp add: phantomWindow_def metaMaskOn_def)
  have trusted: "solana phantomWindow = Some \<lparr>isPhantom = True, isConnected = True,
                     connect_answer = Inr sender, connectTrusted = Inr sender\<rparr>"
    by (simp add: phantomWindow_def)
  from checkExistingConnection_passive[of constructor ?w] none calls
  have "checkExistingConnection constructor ?w = (Inr None, constructor, [SolanaConnect True])
        \<and> \<not> prompts (SolanaConnect True)"
    by (cases "checkExistingConnection constructor ?w") simp
  moreover from checkExistingConnection_passive[of constructor phantomWindow] trusted
  have "fst (checkExistingConnection constructor phantomWindow)
          = Inr (Some (sender, ''Solana'', Phantom))"
    by simp
  ultimately show ?thesis by simp
qed



subsection \<open>Claims on the transfer\<close>




text \<open>
  C3.  On the Solana path, when the run reaches the confirmation and the confirmation
  reports an error object, the transfer is rejected with the error whose message is
  \<open>Transaction failed: \<close> followed by the JSON text of that object, so the detail is in the
  message; and with such a confirmation no run resolves with a signature.  This is the
  current \<open>boostWithPhantom\<close>; the earlier revisions kept in the sources, which took
  amounts in USD, did not look at what \<open>confirmTransaction\<close> returns.
\<close>

theorem confirmation_error_rejects:
  assumes "confirmTransaction a = Inr (Some detail)"
  shows "isl (fst (boostWithPhantom w a conn amount pk)) \<and>
         (solana w \<noteq> None \<and> newPublicKey a pk = Inr f
            \<and> newPublicKey a BOOST_ADDRESSES_solana = Inr t
            \<and> systemTransfer a (floor_js (times_js amount LAMPORTS_PER_SOL)) = Inr ()
            \<and> getLatestBlockhash a = Inr bh \<and> signTransaction a = Inr ()
            \<and> sendSigned a = Inr sig
          \<longrightarrow> fst (boostWithPhantom w a conn amount pk)
                = Inl (Error (''Transaction failed: '' @ detail))) \<and>
         contains detail (message (Error (''Transaction failed: '' @ detail)))"
proof (intro conjI impI)
  show "isl (fst (boostWithPhantom w a conn amount pk))"
    using assms by (simp add: boostWithPhantom_def Let_def split: sum.splits option.splits)
next
  assume "solana w \<noteq> None \<and> newPublicKey a pk = Inr f
            \<and> newPublicKey a BOOST_ADDRESSES_solana = Inr t
            \<and> systemTransfer a (floor_js (times_js amount LAMPORTS_PER_SOL)) = Inr ()
            \<and> getLatestBlockhash a = Inr bh \<and> signTransaction a = Inr ()
            \<and> sendSigned a = Inr sig"
  then show "fst (boostWithPhantom w a conn amount pk)
               = Inl (Error (''Transaction failed: '' @ detail))"
    using assms by (auto simp: boostWithPhantom_def Let_def)
next
  show "contains detail (message (Error (''Transaction failed: '' @ detail)))"
    by (simp only: message.simps contains_append)
qed

theorem confirmation_error_rejects_witness:
  "fst (boostWithPhantom phantomWindow (reporting ''{\"InstructionError\":[0,{\"Custom\":1}]}'')
          None (literal (1 / 2)) sender)
     = Inl (Error ''Transaction failed: {\"InstructionError\":[0,{\"Custom\":1}]}'')"
proof -
  let ?a = "reporting ''{\"InstructionError\":[0,{\"Custom\":1}]}''"
  have reports: "confirmTransaction ?a = Inr (Some ''{\"InstructionError\":[0,{\"Custom\":1}]}'')"
    by (simp add: reporting_def)
  have reached: "solana phantomWindow \<noteq> None \<and> newPublicKey ?a sender = Inr sender
      \<and> newPublicKey ?a BOOST_ADDRESSES_solana = Inr BOOST_ADDRESSES_solana
      \<and> systemTransfer ?a (floor_js (times_js (literal (1 / 2)) LAMPORTS_PER_SOL)) = Inr ()
      \<and> getLatestBlockhash ?a = Inr (''EkSnNWid2cvwEVnVx9aBqawnmiCNiDgp3gUdkDPTKN1N'', 250000000)
      \<and> signTransaction ?a = Inr ()
      \<and> sendSigned ?a = Inr ''5VERv8NMvzbJMEkV8xnrLkEaWRtSz9CosKDYjCJjBRnb''"
    by (simp add: phantomWindow_def reporting_def approving_def accept_def builds_def)
  from confirmation_error_rejects[OF reports, of phantomWindow None "literal (1 / 2)" sender
        sender BOOST_ADDRESSES_solana
        "(''EkSnNWid2cvwEVnVx9aBqawnmiCNiDgp3gUdkDPTKN1N'', 250000000)"
        "''5VERv8NMvzbJMEkV8xnrLkEaWRtSz9CosKDYjCJjBRnb''"] reached
  show ?thesis by simp
qed





end
